theory Spec2Isabelle
  imports Complex_Main "HOL-Library.Sublist"
begin

section \<open>Text\<close>

text \<open>
  A Python \<open>str\<close> is modelled by its UTF-8 encoding, a \<open>string\<close> of bytes.
  Every keyword the service searches for is ASCII, and an ASCII byte occurs in a UTF-8
  text only as the ASCII character itself, so the substring test \<open>w in s\<close> on
  code points and \<open>str_in w s\<close> on bytes agree for these keywords.

  \<open>str.lower\<close> maps exactly two characters outside ASCII to a text that
  contains an ASCII letter: U+212A (KELVIN SIGN, bytes E2 84 AA) becomes \<open>k\<close>, and
  U+0130 (bytes C4 B0) becomes \<open>i\<close> followed by U+0307 (bytes CC 87). \<open>lower\<close>
  below does both, and lower-cases ASCII letters. The other characters outside ASCII
  are left as they are: what Python makes of them contains no ASCII character, so no
  keyword test can tell the difference, and the lower-cased query is never returned.
\<close>

definition is_ascii_upper :: "char \<Rightarrow> bool" where
  "is_ascii_upper c = (65 \<le> (of_char c :: nat) \<and> (of_char c :: nat) \<le> 90)"

definition is_ascii_lower :: "char \<Rightarrow> bool" where
  "is_ascii_lower c = (97 \<le> (of_char c :: nat) \<and> (of_char c :: nat) \<le> 122)"

definition lower_char :: "char \<Rightarrow> char" where
  "lower_char c = (if is_ascii_upper c then char_of ((of_char c :: nat) + 32) else c)"

definition upper_char :: "char \<Rightarrow> char" where
  "upper_char c = (if is_ascii_lower c then char_of ((of_char c :: nat) - 32) else c)"

fun lower :: "string \<Rightarrow> string" where
  "lower [] = []"
| "lower (c # cs) =
     (if c = CHR 0xE2 \<and> take 2 cs = [CHR 0x84, CHR 0xAA]
        then CHR ''k'' # lower (drop 2 cs)
      else if c = CHR 0xC4 \<and> take 1 cs = [CHR 0xB0]
        then CHR ''i'' # CHR 0xCC # CHR 0x87 # lower (drop 1 cs)
      else lower_char c # lower cs)"

text \<open>
  \<open>str.upper\<close> is applied to ASCII constants (the bank names) and to the
  \<open>type\<close> parameter of the financial endpoint, where only the comparison of the
  result with \<open>BANK\<close> and \<open>ATM\<close> is observed. No character outside ASCII has
  an upper-case form that is a part of either word, so upper-casing the ASCII letters
  decides that comparison as Python does.
\<close>

definition upper :: "string \<Rightarrow> string" where
  "upper s = map upper_char s"

text \<open>
  \<open>str.title\<close>: a cased character that follows an uncased one (or starts the text)
  is upper-cased, one that follows a cased character is lower-cased. It is applied only
  to a text whose upper-case form is \<open>BANK\<close> or \<open>ATM\<close>, which is ASCII.
\<close>

fun title_from :: "bool \<Rightarrow> string \<Rightarrow> string" where
  "title_from prev_cased [] = []"
| "title_from prev_cased (c # cs) =
     (if is_ascii_lower c
        then (if prev_cased then c else upper_char c) # title_from True cs
      else if is_ascii_upper c
        then (if prev_cased then lower_char c else c) # title_from True cs
      else c # title_from False cs)"

definition title :: "string \<Rightarrow> string" where
  "title s = title_from False s"

text \<open>Python's \<open>w in s\<close> on texts: \<open>w\<close> occurs in \<open>s\<close> as a contiguous part.\<close>

fun str_in :: "string \<Rightarrow> string \<Rightarrow> bool" where
  "str_in w [] = (w = [])"
| "str_in w (c # cs) = (prefix w (c # cs) \<or> str_in w cs)"

section \<open>Intent and entity extraction\<close>

definition INTENT_KEYWORDS :: "(string \<times> string list) list" where
  "INTENT_KEYWORDS =
    [(''greeting'', [''halo'', ''hai'', ''hello'', ''apa kabar'', ''selamat'']),
     (''whitespots'', [''belum terjangkau'', ''white-spot'', ''white spot'',
                       ''lokasi terbaik'', ''ekspansi'']),
     (''risk_assessment'', [''cabang berisiko'', ''pengawasan'', ''berisiko'']),
     (''gdp_national'', [''kondisi nasional'', ''ekonomi nasional'', ''gdp'', ''nasional'']),
     (''business_analysis'', [''coffee shop'', ''kedai kopi'', ''lokasi strategis'', ''usaha'']),
     (''bank_distribution'', [''sebaran bank'', ''lokasi bank'', ''cabang bank''])]"

definition BANK_ENTITIES :: "string list" where
  "BANK_ENTITIES = [''bni'', ''bca'', ''bri'', ''mandiri'', ''bsi'', ''btn'', ''cimb'', ''danamon'']"

text \<open>
  The loop over \<open>INTENT_KEYWORDS.items()\<close>: the dictionary keeps insertion order, the
  first intent with a keyword in the query wins and ends the loop; the value before the
  loop, \<open>general_info\<close>, stays when no intent matches.
\<close>

fun match_intent :: "(string \<times> string list) list \<Rightarrow> string \<Rightarrow> string" where
  "match_intent [] query_lower = ''general_info''"
| "match_intent ((intent_type, keywords) # rest) query_lower =
     (if list_ex (\<lambda>word. str_in word query_lower) keywords then intent_type
      else match_intent rest query_lower)"

definition extract_intent_and_entities :: "string \<Rightarrow> string \<times> string list \<times> string" where
  "extract_intent_and_entities query =
     (let query_lower = lower query;
          intent = match_intent INTENT_KEYWORDS query_lower;
          entities = (if str_in ''bali'' query_lower then [''Bali''] else [])
                     @ map upper (filter (\<lambda>bank. str_in bank query_lower) BANK_ENTITIES);
          location = (if str_in ''bali'' query_lower then ''Bali''
                      else if intent = ''gdp_national'' then ''Indonesia'' else ''Bali'')
      in (intent, entities, location))"

section \<open>Map directives\<close>

record MapDirective =
  mode :: string
  filters :: "(string \<times> bool) list"
  center :: "(real \<times> real) option"
  zoom :: "int option"
  highlights :: "(string \<times> string) list list option"

definition MAP_CENTERS :: "(string \<times> (real \<times> real)) list" where
  "MAP_CENTERS = [(''Bali'', (-8.6705, 115.2126)), (''Indonesia'', (-2.5, 118))]"

text \<open>\<open>d.get(key, default)\<close> on a dictionary given as an association list.\<close>

definition dict_get :: "('k \<times> 'v) list \<Rightarrow> 'k \<Rightarrow> 'v \<Rightarrow> 'v" where
  "dict_get d key dflt = (case map_of d key of None \<Rightarrow> dflt | Some v \<Rightarrow> v)"

text \<open>
  \<open>d[key]\<close> for a key that the dictionary literal holds; both uses below read a
  key written in the literal itself, so the \<open>KeyError\<close> of a missing key cannot occur.
\<close>

definition dict_item :: "('k \<times> 'v) list \<Rightarrow> 'k \<Rightarrow> 'v" where
  "dict_item d key = the (map_of d key)"

definition directive_config :: "string \<Rightarrow> (string \<times> MapDirective) list" where
  "directive_config location =
     (let center = dict_get MAP_CENTERS location (dict_item MAP_CENTERS ''Bali'');
          zoom = (if location = ''Bali'' then 10 else 5)
      in [(''gdp_national'',
            \<lparr>mode = ''gdp'', filters = [],
             center = Some (dict_item MAP_CENTERS ''Indonesia''), zoom = Some 5,
             highlights = None\<rparr>),
          (''whitespots'',
            \<lparr>mode = ''whitespots'',
             filters = [(''show_heatmap'', True), (''show_financial'', True)],
             center = Some center, zoom = Some zoom, highlights = None\<rparr>),
          (''risk_assessment'',
            \<lparr>mode = ''risk'',
             filters = [(''show_heatmap'', True), (''show_financial'', True),
                        (''highlight_risk'', True)],
             center = Some center, zoom = Some zoom, highlights = None\<rparr>),
          (''bank_distribution'',
            \<lparr>mode = ''financial'',
             filters = [(''show_financial'', True), (''group_by_category'', True)],
             center = Some center, zoom = Some zoom, highlights = None\<rparr>),
          (''business_analysis'',
            \<lparr>mode = ''business_analysis'',
             filters = [(''show_heatmap'', True), (''show_poi_density'', True),
                        (''show_financial'', True), (''show_recommended_areas'', True)],
             center = Some center, zoom = Some 11, highlights = None\<rparr>)])"

definition generate_map_directive :: "string \<Rightarrow> string \<Rightarrow> MapDirective" where
  "generate_map_directive intent location =
     dict_get (directive_config location) intent
       (dict_item (directive_config location) ''gdp_national'')"

section \<open>The database\<close>

text \<open>
  The table \<open>poi_density\<close>. Its columns are taken as not NULL.

  Intensities, ratings and coordinates are doubles in the database. A double is modelled
  by a real number through an order-preserving embedding that sends the double nearest to
  each literal of the queries (0.2, 0.3, 0.5, 0.7) to that literal: the double stands
  within half a unit in the last place of the literal, so the order towards every other
  double is unchanged. A comparison of a double with one of these literals, which the
  database makes after casting the literal to a double, is then the comparison of the
  real numbers. Arithmetic on doubles is not the arithmetic of the reals: \<open>AVG\<close> and
  \<open>ROUND(AVG(...) * COUNT(*), 2)\<close> are what the database engine computes, and the model
  takes them from the database as it takes its rows.
\<close>

record poi =
  poi_id :: int
  name :: string
  category :: string
  latitude :: real
  longitude :: real
  province :: string
  district :: string
  intensity :: real
  rating :: real
  rating_count :: int
  gmaps_link :: string
  bank_category :: string
  bank_colorcode :: string

text \<open>
  What the database does when it is used: \<open>duckdb.connect\<close> may raise (the service
  tries twice), executing a statement may raise, closing may raise. An exception is
  carried as its message, \<open>Inl msg\<close>.
\<close>

record database =
  connect_first :: "string option"
  connect_retry :: "string option"
  poi_density :: "string + poi list"
  close_error :: "string option"
  sql_avg :: "real list \<Rightarrow> real"
  sql_round2_product :: "real \<Rightarrow> int \<Rightarrow> real"

text \<open>\<open>ClaudeService.get_db_connection\<close>: one retry, and the first exception is the one raised.\<close>

definition get_db_connection :: "database \<Rightarrow> string + unit" where
  "get_db_connection db =
     (case connect_first db of
        None \<Rightarrow> Inr ()
      | Some e \<Rightarrow> (case connect_retry db of None \<Rightarrow> Inr () | Some e2 \<Rightarrow> Inl e))"

text \<open>The \<open>get_db_connection\<close> of the HTTP layer: no retry.\<close>

definition api_get_db_connection :: "database \<Rightarrow> string + unit" where
  "api_get_db_connection db =
     (case connect_first db of None \<Rightarrow> Inr () | Some e \<Rightarrow> Inl e)"

definition conn_close :: "database \<Rightarrow> string + unit" where
  "conn_close db = (case close_error db of None \<Rightarrow> Inr () | Some e \<Rightarrow> Inl e)"

definition is_financial :: "poi \<Rightarrow> bool" where
  "is_financial r = (category r = ''Bank'' \<or> category r = ''ATM'')"

text \<open>\<open>SELECT COUNT(*) ... WHERE cond\<close>.\<close>

definition count_where :: "(poi \<Rightarrow> bool) \<Rightarrow> poi list \<Rightarrow> int" where
  "count_where cond rows = int (length (filter cond rows))"

text \<open>
  \<open>AVG(intensity)\<close> over a group, with the engine's average \<open>avg\<close> of a list of
  doubles that is not empty; NULL for the empty group.
\<close>

definition avg_intensity :: "(real list \<Rightarrow> real) \<Rightarrow> poi list \<Rightarrow> real option" where
  "avg_intensity avg rows = (if rows = [] then None else Some (avg (map intensity rows)))"

text \<open>
  A stable insertion sort for \<open>ORDER BY\<close>. SQL leaves the order of rows with equal
  keys, and of the groups of a \<open>GROUP BY\<close>, open; the model takes the groups in the order
  \<open>remdups\<close> gives and keeps it among equal keys.
\<close>

fun insort_by :: "('a \<Rightarrow> 'a \<Rightarrow> bool) \<Rightarrow> 'a \<Rightarrow> 'a list \<Rightarrow> 'a list" where
  "insort_by le x [] = [x]"
| "insort_by le x (y # ys) = (if le x y then x # y # ys else y # insort_by le x ys)"

definition sort_by :: "('a \<Rightarrow> 'a \<Rightarrow> bool) \<Rightarrow> 'a list \<Rightarrow> 'a list" where
  "sort_by le xs = foldr (insort_by le) xs []"

section \<open>The queries of the context assembler\<close>

text \<open>
  A \<open>WHEN\<close> branch of the SQL \<open>CASE\<close> is taken when its condition is TRUE. The average
  comes from the outer side of a \<open>LEFT JOIN\<close> and is NULL for a district without POI
  rows; a comparison with NULL is not TRUE.
\<close>

definition sql_gt :: "real option \<Rightarrow> real \<Rightarrow> bool" where
  "sql_gt a t = (case a of None \<Rightarrow> False | Some x \<Rightarrow> x > t)"

definition sql_lt :: "real option \<Rightarrow> real \<Rightarrow> bool" where
  "sql_lt a t = (case a of None \<Rightarrow> False | Some x \<Rightarrow> x < t)"

definition area_classification :: "real option \<Rightarrow> int \<Rightarrow> string" where
  "area_classification avg_poi_density total_financial =
     (if sql_gt avg_poi_density 0.7 \<and> total_financial < 2 then ''HIGH_PRIORITY_WHITESPACE''
      else if sql_gt avg_poi_density 0.5 \<and> total_financial < 3 then ''MEDIUM_PRIORITY_WHITESPACE''
      else if sql_lt avg_poi_density 0.3 \<and> total_financial > 2 then ''POTENTIAL_RISK_OVERSUPPLY''
      else if sql_lt avg_poi_density 0.2 \<and> total_financial > 0 then ''HIGH_RISK_LOW_DEMAND''
      else ''BALANCED'')"

record district_row =
  dr_district :: string
  dr_banks :: int
  dr_atms :: int
  dr_total_financial :: int
  dr_avg_poi_density :: real
  dr_area_classification :: string

text \<open>\<open>ORDER BY avg DESC NULLS LAST\<close>: may the first key stand before the second?\<close>

fun desc_nulls_last :: "real option \<Rightarrow> real option \<Rightarrow> bool" where
  "desc_nulls_last a None = True"
| "desc_nulls_last None (Some y) = False"
| "desc_nulls_last (Some x) (Some y) = (x \<ge> y)"

text \<open>
  The subquery \<open>p\<close> seen from the join: the average POI intensity of a district of the
  location, NULL when the district has no row outside Bank and ATM.
\<close>

definition p_avg_poi_density ::
  "(real list \<Rightarrow> real) \<Rightarrow> poi list \<Rightarrow> string \<Rightarrow> string \<Rightarrow> real option" where
  "p_avg_poi_density avg rows location dn =
     avg_intensity avg
       (filter (\<lambda>r. district r = dn)
          (filter (\<lambda>r. \<not> is_financial r \<and> province r = location) rows))"

definition district_analysis_query ::
  "(real list \<Rightarrow> real) \<Rightarrow> poi list \<Rightarrow> string \<Rightarrow> district_row list" where
  "district_analysis_query avg_fn rows location =
     (let d_rows = filter (\<lambda>r. is_financial r \<and> province r = location) rows;
          joined = map (\<lambda>dn.
                     (let g = filter (\<lambda>r. district r = dn) d_rows;
                          avg = p_avg_poi_density avg_fn rows location dn
                      in (avg,
                          \<lparr>dr_district = dn,
                           dr_banks = count_where (\<lambda>r. category r = ''Bank'') g,
                           dr_atms = count_where (\<lambda>r. category r = ''ATM'') g,
                           dr_total_financial = int (length g),
                           dr_avg_poi_density = (case avg of None \<Rightarrow> 0 | Some x \<Rightarrow> x),
                           dr_area_classification = area_classification avg (int (length g))\<rparr>)))
                     (remdups (map district d_rows))
      in map snd (sort_by (\<lambda>a b. desc_nulls_last (fst a) (fst b)) joined))"

record opportunity_row =
  op_district :: string
  op_avg_activity_density :: real
  op_total_activity_points :: int
  op_high_activity_spots :: int
  op_business_opportunity_score :: real

text \<open>
  The score \<open>ROUND(AVG(intensity) * COUNT(*), 2)\<close> is the engine's \<open>round2_product\<close>
  of the average and the count.
\<close>

definition business_opportunities_query ::
  "(real list \<Rightarrow> real) \<Rightarrow> (real \<Rightarrow> int \<Rightarrow> real) \<Rightarrow> poi list \<Rightarrow> string
     \<Rightarrow> opportunity_row list" where
  "business_opportunities_query avg_fn round2_product rows location =
     (let p_rows = filter (\<lambda>r. \<not> is_financial r \<and> province r = location) rows;
          groups = map (\<lambda>dn.
                     (let g = filter (\<lambda>r. district r = dn) p_rows;
                          avg = avg_fn (map intensity g)
                      in \<lparr>op_district = dn,
                          op_avg_activity_density = avg,
                          op_total_activity_points = int (length g),
                          op_high_activity_spots = count_where (\<lambda>r. intensity r > 0.7) g,
                          op_business_opportunity_score = round2_product avg (int (length g))\<rparr>))
                     (remdups (map district p_rows));
          having = filter (\<lambda>grp. op_avg_activity_density grp > 0.5) groups
      in take 10 (sort_by (\<lambda>a b. op_business_opportunity_score a \<ge> op_business_opportunity_score b)
                    having))"

section \<open>The service\<close>

record area =
  area_name :: string
  coordinates :: "real \<times> real"
  area_district :: string
  business_potential :: string

text \<open>
  The context dictionary. The three counts are in every context the service builds, so
  \<open>db_context.get('total_banks', 0)\<close> and its siblings never take their default; the
  other three keys are there or not.
\<close>

record db_context =
  total_banks :: int
  total_atms :: int
  total_poi :: int
  district_analysis :: "district_row list option"
  business_opportunities :: "opportunity_row list option"
  recommended_business_areas :: "area list option"

record history_entry =
  timestamp :: string
  query :: string
  response :: string

record service =
  conversation_history :: "history_entry list"
  db_cache :: "string \<rightharpoonup> db_context"

definition init_service :: service where
  "init_service = \<lparr>conversation_history = [], db_cache = Map.empty\<rparr>"

definition zero_stats :: db_context where
  "zero_stats = \<lparr>total_banks = 0, total_atms = 0, total_poi = 0,
                 district_analysis = None, business_opportunities = None,
                 recommended_business_areas = None\<rparr>"

text \<open>The key of the cache: \<open>f"basic_stats_{location}"\<close>.\<close>

definition cache_key :: "string \<Rightarrow> string" where
  "cache_key location = ''basic_stats_'' @ location"

text \<open>The dictionary \<open>stats\<close> of \<open>get_basic_stats\<close>: its three \<open>COUNT(*)\<close> queries.\<close>

definition stats_of_table :: "poi list \<Rightarrow> string \<Rightarrow> db_context" where
  "stats_of_table rows location =
     \<lparr>total_banks = count_where (\<lambda>r. category r = ''Bank'' \<and> province r = location) rows,
      total_atms = count_where (\<lambda>r. category r = ''ATM'' \<and> province r = location) rows,
      total_poi = count_where (\<lambda>r. \<not> is_financial r \<and> province r = location) rows,
      district_analysis = None, business_opportunities = None,
      recommended_business_areas = None\<rparr>"

text \<open>The body of the \<open>try\<close> of \<open>get_basic_stats\<close>, up to \<open>conn.close()\<close>.\<close>

definition basic_stats_query :: "database \<Rightarrow> string \<Rightarrow> string + db_context" where
  "basic_stats_query db location =
     (case get_db_connection db of
        Inl e \<Rightarrow> Inl e
      | Inr conn \<Rightarrow>
         (case poi_density db of
            Inl e \<Rightarrow> Inl e
          | Inr rows \<Rightarrow>
             (let stats = stats_of_table rows location
              in (case conn_close db of Inl e \<Rightarrow> Inl e | Inr u \<Rightarrow> Inr stats))))"

text \<open>
  Every operation of the service returns \<open>Inl msg\<close> when it lets an exception out and
  \<open>Inr\<close> of its result and the service afterwards otherwise. What is printed is left out.
\<close>

definition get_basic_stats ::
  "database \<Rightarrow> service \<Rightarrow> string \<Rightarrow> string + (db_context \<times> service)" where
  "get_basic_stats db s location =
     (case db_cache s (cache_key location) of
        Some cached \<Rightarrow> Inr (cached, s)
      | None \<Rightarrow>
         (case basic_stats_query db location of
            Inr stats \<Rightarrow> Inr (stats, s\<lparr>db_cache := (db_cache s)(cache_key location \<mapsto> stats)\<rparr>)
          | Inl e \<Rightarrow> Inr (zero_stats, s)))"

definition get_district_analysis :: "database \<Rightarrow> string \<Rightarrow> string + district_row list" where
  "get_district_analysis db location =
     (case (case get_db_connection db of
              Inl e \<Rightarrow> Inl e
            | Inr conn \<Rightarrow>
               (case poi_density db of
                  Inl e \<Rightarrow> Inl e
                | Inr rows \<Rightarrow>
                   (let result = district_analysis_query (sql_avg db) rows location
                    in (case conn_close db of Inl e \<Rightarrow> Inl e | Inr u \<Rightarrow> Inr result))))
      of Inr result \<Rightarrow> Inr result
       | Inl e \<Rightarrow> Inr [])"

definition get_business_opportunities ::
  "database \<Rightarrow> string \<Rightarrow> string + opportunity_row list" where
  "get_business_opportunities db location =
     (case (case get_db_connection db of
              Inl e \<Rightarrow> Inl e
            | Inr conn \<Rightarrow>
               (case poi_density db of
                  Inl e \<Rightarrow> Inl e
                | Inr rows \<Rightarrow>
                   (let opportunities =
                          business_opportunities_query (sql_avg db) (sql_round2_product db)
                            rows location
                    in (case conn_close db of Inl e \<Rightarrow> Inl e | Inr u \<Rightarrow> Inr opportunities))))
      of Inr opportunities \<Rightarrow> Inr opportunities
       | Inl e \<Rightarrow> Inr [])"

definition RECOMMENDED_AREAS :: "area list" where
  "RECOMMENDED_AREAS =
     [\<lparr>area_name = ''Seminyak Business District'', coordinates = (-8.6872, 115.1748),
       area_district = ''Badung'', business_potential = ''HIGH''\<rparr>,
      \<lparr>area_name = ''Ubud Cultural Center'', coordinates = (-8.5088, 115.2623),
       area_district = ''Gianyar'', business_potential = ''HIGH''\<rparr>,
      \<lparr>area_name = ''Canggu Beach Area'', coordinates = (-8.6482, 115.1374),
       area_district = ''Badung'', business_potential = ''HIGH''\<rparr>]"

text \<open>
  \<open>get_database_context\<close> writes its extra keys into the dictionary that
  \<open>get_basic_stats\<close> returned. When the counts came from the cache, or were just put
  there, that dictionary is the cached object and the cache entry changes with it; the
  zero-valued dictionary of the error path is a fresh object outside the cache. After
  \<open>get_basic_stats\<close> the cache holds the key exactly in the first case.
\<close>

definition write_back :: "service \<Rightarrow> string \<Rightarrow> db_context \<Rightarrow> service" where
  "write_back s location ctx =
     (case db_cache s (cache_key location) of
        None \<Rightarrow> s
      | Some cached \<Rightarrow> s\<lparr>db_cache := (db_cache s)(cache_key location \<mapsto> ctx)\<rparr>)"

definition get_database_context ::
  "database \<Rightarrow> service \<Rightarrow> string \<Rightarrow> string \<Rightarrow> string + (db_context \<times> service)" where
  "get_database_context db s intent location0 =
     (let location = (if location0 = [] \<or> location0 = ''None'' then ''Bali'' else location0)
      in (case get_basic_stats db s location of
            Inl e \<Rightarrow> Inl e
          | Inr (ctx, s1) \<Rightarrow>
             if intent = ''whitespots'' \<or> intent = ''risk_assessment'' then
               (case get_district_analysis db location of
                  Inl e \<Rightarrow> Inl e
                | Inr rows \<Rightarrow>
                   (let ctx1 = ctx\<lparr>district_analysis := Some rows\<rparr>
                    in Inr (ctx1, write_back s1 location ctx1)))
             else if intent = ''business_analysis'' then
               (case get_business_opportunities db location of
                  Inl e \<Rightarrow> Inl e
                | Inr opps \<Rightarrow>
                   (let ctx1 = ctx\<lparr>business_opportunities := Some opps\<rparr>;
                        ctx2 = (if location = ''Bali''
                                then ctx1\<lparr>recommended_business_areas := Some RECOMMENDED_AREAS\<rparr>
                                else ctx1)
                    in Inr (ctx2, write_back s1 location ctx2)))
             else Inr (ctx, s1)))"

text \<open>\<open>str\<close> of an integer, as the f-string of the fallback text renders the counts.\<close>

definition digit_char :: "nat \<Rightarrow> char" where
  "digit_char d = char_of (48 + d)"

fun str_nat :: "nat \<Rightarrow> string" where
  "str_nat n = (if n < 10 then [digit_char n] else str_nat (n div 10) @ [digit_char (n mod 10)])"

definition str_int :: "int \<Rightarrow> string" where
  "str_int i = (if i < 0 then CHR ''-'' # str_nat (nat (- i)) else str_nat (nat i))"

text \<open>U+26A0 U+FE0F, the warning sign of the fallback text, in UTF-8.\<close>

definition WARNING_SIGN :: string where
  "WARNING_SIGN = [CHR 0xE2, CHR 0x9A, CHR 0xA0, CHR 0xEF, CHR 0xB8, CHR 0x8F]"

definition error_response :: "string \<Rightarrow> db_context \<Rightarrow> string \<Rightarrow> string" where
  "error_response location ctx e =
     ''\<newline>            **'' @ WARNING_SIGN @ '' Analisis Terbatas - API Error**\<newline>''
     @ ''            \<newline>''
     @ ''            Data '' @ location @ '':\<newline>''
     @ ''            - Bank: '' @ str_int (total_banks ctx) @ '' lokasi\<newline>''
     @ ''            - ATM: '' @ str_int (total_atms ctx) @ '' lokasi  \<newline>''
     @ ''            - POI: '' @ str_int (total_poi ctx) @ '' titik aktivitas\<newline>''
     @ ''            \<newline>''
     @ ''            Error: '' @ e @ ''\<newline>''
     @ ''            ''"

text \<open>
  The call of the language model is outside the program: its outcome is given, \<open>Inl msg\<close>
  for an exception with \<open>str(e) = msg\<close>, \<open>Inr texts\<close> for a response whose content
  blocks carry \<open>texts\<close>. The system prompt and the token limit reach only that call and
  are left out. \<open>response.content[0]\<close> on an empty content raises \<open>IndexError\<close> inside
  the \<open>try\<close>. The time of the history entry is given as \<open>now\<close>.
\<close>

definition llm_text :: "string + string list \<Rightarrow> string + string" where
  "llm_text llm =
     (case llm of
        Inl e \<Rightarrow> Inl e
      | Inr [] \<Rightarrow> Inl ''list index out of range''
      | Inr (t # ts) \<Rightarrow> Inr t)"

definition needs_deep_analysis :: "string \<Rightarrow> bool" where
  "needs_deep_analysis intent =
     (intent \<in> set [''whitespots'', ''risk_assessment'', ''business_analysis'',
                      ''bank_distribution''])"

definition generate_response ::
  "database \<Rightarrow> (string + string list) \<Rightarrow> string \<Rightarrow> service \<Rightarrow> string
     \<Rightarrow> string + ((string \<times> MapDirective) \<times> service)" where
  "generate_response db llm now s q =
     (case extract_intent_and_entities q of
        (intent, entities, location) \<Rightarrow>
          (let map_directive = generate_map_directive intent location
           in (case (if needs_deep_analysis intent
                     then get_database_context db s intent location
                     else get_basic_stats db s location) of
                 Inl e \<Rightarrow> Inl e
               | Inr (ctx, s1) \<Rightarrow>
                  (case llm_text llm of
                     Inr text \<Rightarrow>
                       Inr ((text, map_directive),
                            s1\<lparr>conversation_history :=
                                  conversation_history s1
                                  @ [\<lparr>timestamp = now, query = q, response = text\<rparr>]\<rparr>)
                   | Inl e \<Rightarrow>
                       Inr ((error_response location ctx e, map_directive), s1)))))"

definition get_conversation_history :: "service \<Rightarrow> history_entry list" where
  "get_conversation_history s = conversation_history s"

definition clear_conversation_history :: "service \<Rightarrow> service" where
  "clear_conversation_history s = s\<lparr>conversation_history := [], db_cache := Map.empty\<rparr>"

section \<open>The financial endpoint\<close>

record institution =
  inst_id :: int
  inst_name :: string
  inst_type :: string
  lat :: real
  lng :: real
  inst_province :: string
  inst_district :: string
  inst_rating :: real
  inst_rating_count :: int
  inst_gmaps_link :: string
  inst_bank_category :: string
  inst_bank_colorcode :: string

definition institution_of :: "poi \<Rightarrow> institution" where
  "institution_of row =
     \<lparr>inst_id = poi_id row, inst_name = name row, inst_type = category row,
      lat = latitude row, lng = longitude row, inst_province = province row,
      inst_district = district row, inst_rating = rating row,
      inst_rating_count = rating_count row, inst_gmaps_link = gmaps_link row,
      inst_bank_category = bank_category row, inst_bank_colorcode = bank_colorcode row\<rparr>"

text \<open>The query parameters \<open>type\<close>, \<open>province\<close> and \<open>district\<close>, each given or not.\<close>

record financial_args =
  arg_type :: "string option"
  arg_province :: "string option"
  arg_district :: "string option"

datatype financial_response =
  Financial_OK (fin_count: int) (fin_banks: "institution list") (fin_atms: "institution list")
| Financial_Error_500 string

text \<open>The order of texts in \<open>ORDER BY\<close>: bytewise.\<close>

fun str_le :: "string \<Rightarrow> string \<Rightarrow> bool" where
  "str_le [] t = True"
| "str_le (x # xs) [] = False"
| "str_le (x # xs) (y # ys) =
     ((of_char x :: nat) < of_char y \<or> (x = y \<and> str_le xs ys))"

definition by_category_name :: "poi \<Rightarrow> poi \<Rightarrow> bool" where
  "by_category_name a b =
     (if category a = category b then str_le (name a) (name b)
      else str_le (category a) (category b))"

text \<open>Python's truth of an optional text: given and not empty.\<close>

definition truthy :: "string option \<Rightarrow> bool" where
  "truthy a = (case a of None \<Rightarrow> False | Some t \<Rightarrow> t \<noteq> [])"

text \<open>
  The \<open>WHERE\<close> clause as the handler builds it: two fixed conditions, and one more for
  each of \<open>district\<close> and \<open>type\<close> when the \<open>if\<close> before it lets it in.
\<close>

definition financial_conditions :: "financial_args \<Rightarrow> (poi \<Rightarrow> bool) list" where
  "financial_conditions args =
     (let type_filter = arg_type args;
          province_filter = (case arg_province args of None \<Rightarrow> ''Bali'' | Some p \<Rightarrow> p);
          district_filter = arg_district args
      in [is_financial, \<lambda>row. province row = province_filter]
         @ (if truthy district_filter
            then [\<lambda>row. district row = the district_filter] else [])
         @ (if truthy type_filter \<and> upper (the type_filter) \<in> set [''BANK'', ''ATM'']
            then [\<lambda>row. category row = title (the type_filter)] else []))"

definition financial_where :: "financial_args \<Rightarrow> poi \<Rightarrow> bool" where
  "financial_where args row = list_all (\<lambda>cond. cond row) (financial_conditions args)"

definition get_financial_data :: "database \<Rightarrow> financial_args \<Rightarrow> financial_response" where
  "get_financial_data db args =
     (case api_get_db_connection db of
        Inl e \<Rightarrow> Financial_Error_500 e
      | Inr conn \<Rightarrow>
         (case poi_density db of
            Inl e \<Rightarrow> Financial_Error_500 e
          | Inr rows \<Rightarrow>
             (let result = sort_by by_category_name (filter (financial_where args) rows)
              in (case conn_close db of
                    Inl e \<Rightarrow> Financial_Error_500 e
                  | Inr u \<Rightarrow>
                     Financial_OK (int (length result))
                       (map institution_of (filter (\<lambda>row. category row = ''Bank'') result))
                       (map institution_of (filter (\<lambda>row. category row \<noteq> ''Bank'') result))))))"

section \<open>Sample data\<close>

definition sample_atm :: poi where
  "sample_atm =
     \<lparr>poi_id = 1, name = ''ATM BNI Kuta'', category = ''ATM'', latitude = -8.72,
      longitude = 115.17, province = ''Bali'', district = ''Badung'', intensity = 0,
      rating = 4, rating_count = 12, gmaps_link = [], bank_category = ''BNI'',
      bank_colorcode = ''orange''\<rparr>"

definition sample_bank :: poi where
  "sample_bank =
     \<lparr>poi_id = 2, name = ''BCA Denpasar'', category = ''Bank'', latitude = -8.65,
      longitude = 115.21, province = ''Bali'', district = ''Denpasar'', intensity = 0,
      rating = 4, rating_count = 30, gmaps_link = [], bank_category = ''BCA'',
      bank_colorcode = ''blue''\<rparr>"

text \<open>
  An engine for the sample data that averages and rounds without error (\<open>ROUND\<close> to two
  decimals, halves away from zero); on the sample rows a database computes the same.
\<close>

definition exact_avg :: "real list \<Rightarrow> real" where
  "exact_avg xs = sum_list xs / real (length xs)"

definition exact_round2_product :: "real \<Rightarrow> int \<Rightarrow> real" where
  "exact_round2_product a n =
     (let x = a * real_of_int n
      in if x \<ge> 0 then real_of_int \<lfloor>x * 100 + 1 / 2\<rfloor> / 100
         else - (real_of_int \<lfloor>- x * 100 + 1 / 2\<rfloor> / 100))"

definition sample_db :: database where
  "sample_db = \<lparr>connect_first = None, connect_retry = None,
                poi_density = Inr [sample_atm, sample_bank], close_error = None,
                sql_avg = exact_avg, sql_round2_product = exact_round2_product\<rparr>"

definition broken_db :: database where
  "broken_db = \<lparr>connect_first = Some ''IO Error: cannot open file'',
                connect_retry = Some ''IO Error: cannot open file'',
                poi_density = Inl ''no connection'', close_error = None,
                sql_avg = exact_avg, sql_round2_product = exact_round2_product\<rparr>"

text \<open>
  Two districts of Bali with one bank each: Bangli has one other point, of intensity 0,
  Klungkung has none.
\<close>

definition sample_point :: "int \<Rightarrow> string \<Rightarrow> string \<Rightarrow> real \<Rightarrow> poi" where
  "sample_point i cat dn x =
     \<lparr>poi_id = i, name = ''point'', category = cat, latitude = -8.5, longitude = 115.3,
      province = ''Bali'', district = dn, intensity = x, rating = 4, rating_count = 1,
      gmaps_link = [], bank_category = [], bank_colorcode = []\<rparr>"

definition sample_districts :: "poi list" where
  "sample_districts =
     [sample_point 1 ''Bank'' ''Bangli'' 0,
      sample_point 2 ''Cafe'' ''Bangli'' 0,
      sample_point 3 ''Bank'' ''Klungkung'' 0]"

definition districts_db :: database where
  "districts_db = \<lparr>connect_first = None, connect_retry = None,
                   poi_density = Inr sample_districts, close_error = None,
                   sql_avg = exact_avg, sql_round2_product = exact_round2_product\<rparr>"

text \<open>A service whose cache holds counts for Bali that no longer match the table.\<close>

definition stale_service :: service where
  "stale_service =
     \<lparr>conversation_history =
        [\<lparr>timestamp = ''2025-01-01T00:00:00'', query = ''Halo'', response = ''Halo!''\<rparr>],
      db_cache = [cache_key ''Bali'' \<mapsto> zero_stats\<lparr>total_banks := 99\<rparr>]\<rparr>"

text \<open>Some step of a query on the database raises.\<close>

definition db_raises :: "database \<Rightarrow> bool" where
  "db_raises db = (isl (get_db_connection db) \<or> isl (poi_density db) \<or> isl (conn_close db))"

text \<open>
  The context \<open>generate_response\<close> assembles before it calls the language model: the
  full context for the four deep intents, the counts alone for the others.
\<close>

definition assemble ::
  "database \<Rightarrow> service \<Rightarrow> string \<Rightarrow> string \<Rightarrow> string + (db_context \<times> service)" where
  "assemble db s intent location =
     (if needs_deep_analysis intent then get_database_context db s intent location
      else get_basic_stats db s location)"

section \<open>Auxiliary facts\<close>

lemma map_centers_item:
  "dict_item MAP_CENTERS ''Bali'' = (-8.6705, 115.2126)"
  "dict_item MAP_CENTERS ''Indonesia'' = (-2.5, 118)"
  by (simp_all add: dict_item_def MAP_CENTERS_def)

lemma map_centers_lookup:
  "dict_get MAP_CENTERS location (-8.6705, 115.2126) =
     (if location = ''Indonesia'' then (-2.5, 118) else (-8.6705, 115.2126))"
  by (simp add: dict_get_def dict_item_def MAP_CENTERS_def)

lemma generate_map_directive_cases:
  "generate_map_directive intent location =
     (if intent = ''gdp_national'' then dict_item (directive_config location) ''gdp_national''
      else if intent = ''whitespots'' then dict_item (directive_config location) ''whitespots''
      else if intent = ''risk_assessment'' then dict_item (directive_config location) ''risk_assessment''
      else if intent = ''bank_distribution'' then dict_item (directive_config location) ''bank_distribution''
      else if intent = ''business_analysis'' then dict_item (directive_config location) ''business_analysis''
      else dict_item (directive_config location) ''gdp_national'')"
  by (simp add: generate_map_directive_def dict_get_def dict_item_def directive_config_def Let_def)

lemma config_center:
  "center (dict_item (directive_config location) ''gdp_national'') = Some (-2.5, 118)"
  "center (dict_item (directive_config location) ''whitespots'') =
     Some (if location = ''Indonesia'' then (-2.5, 118) else (-8.6705, 115.2126))"
  "center (dict_item (directive_config location) ''risk_assessment'') =
     Some (if location = ''Indonesia'' then (-2.5, 118) else (-8.6705, 115.2126))"
  "center (dict_item (directive_config location) ''bank_distribution'') =
     Some (if location = ''Indonesia'' then (-2.5, 118) else (-8.6705, 115.2126))"
  "center (dict_item (directive_config location) ''business_analysis'') =
     Some (if location = ''Indonesia'' then (-2.5, 118) else (-8.6705, 115.2126))"
  unfolding directive_config_def Let_def map_centers_item map_centers_lookup
  by (simp_all add: dict_item_def)

lemma config_zoom:
  "zoom (dict_item (directive_config location) ''business_analysis'') = Some 11"
  unfolding directive_config_def Let_def
  by (simp add: dict_item_def)

lemma map_centers_table:
   "map_of MAP_CENTERS location =
     (if location = ''Bali'' then Some (-8.6705, 115.2126)
      else if location = ''Indonesia'' then Some (-2.5, 118) else None)"
  by (simp add: MAP_CENTERS_def)

lemma basic_stats_query_raises:
  "isl (basic_stats_query db location) = db_raises db"
  by (auto simp add: basic_stats_query_def db_raises_def Let_def split: sum.splits)

lemma get_basic_stats_returns:
  "\<exists>ctx s'. get_basic_stats db s location = Inr (ctx, s')"
  by (simp add: get_basic_stats_def Let_def split: option.split sum.split)

lemma get_basic_stats_history:
  "get_basic_stats db s location = Inr (ctx, s') \<Longrightarrow>
     conversation_history s' = conversation_history s"
  by (auto simp add: get_basic_stats_def Let_def split: option.splits sum.splits)

lemma get_district_analysis_returns:
  "\<exists>rows. get_district_analysis db location = Inr rows"
  by (simp add: get_district_analysis_def Let_def split: sum.split)

lemma get_business_opportunities_returns:
  "\<exists>rows. get_business_opportunities db location = Inr rows"
  by (simp add: get_business_opportunities_def Let_def split: sum.split)

lemma write_back_history:
  "conversation_history (write_back s location ctx) = conversation_history s"
  by (simp add: write_back_def Let_def split: option.split)

lemma get_database_context_returns:
  "\<exists>ctx s'. get_database_context db s intent location = Inr (ctx, s')"
proof -
  define loc where "loc = (if location = [] \<or> location = ''None'' then ''Bali'' else location)"
  obtain ctx s1 where a: "get_basic_stats db s loc = Inr (ctx, s1)"
    using get_basic_stats_returns by blast
  obtain rows where b: "get_district_analysis db loc = Inr rows"
    using get_district_analysis_returns by blast
  obtain opps where c: "get_business_opportunities db loc = Inr opps"
    using get_business_opportunities_returns by blast
  show ?thesis
    unfolding get_database_context_def Let_def loc_def [symmetric]
    by (simp add: a b c)
qed

lemma get_database_context_history:
  assumes "get_database_context db s intent location = Inr (ctx, s')"
  shows "conversation_history s' = conversation_history s"
proof -
  define loc where "loc = (if location = [] \<or> location = ''None'' then ''Bali'' else location)"
  obtain ctx0 s1 where a: "get_basic_stats db s loc = Inr (ctx0, s1)"
    using get_basic_stats_returns by blast
  obtain rows where b: "get_district_analysis db loc = Inr rows"
    using get_district_analysis_returns by blast
  obtain opps where c: "get_business_opportunities db loc = Inr opps"
    using get_business_opportunities_returns by blast
  have h: "conversation_history s1 = conversation_history s"
    using a by (rule get_basic_stats_history)
  show ?thesis
    using assms h
    unfolding get_database_context_def Let_def loc_def [symmetric]
    by (auto simp add: a b c write_back_history split: if_splits)
qed

lemma assemble_returns: "\<exists>ctx s1. assemble db s intent location = Inr (ctx, s1)"
  by (simp add: assemble_def get_database_context_returns get_basic_stats_returns)

lemma assemble_history:
  "assemble db s intent location = Inr (ctx, s1) \<Longrightarrow>
     conversation_history s1 = conversation_history s"
  by (auto simp add: assemble_def get_database_context_history get_basic_stats_history
      split: if_splits)

lemma generate_response_unfold:
  assumes "extract_intent_and_entities q = (intent, entities, location)"
    and "assemble db s intent location = Inr (ctx, s1)"
  shows "generate_response db llm now s q =
     (case llm_text llm of
        Inr text \<Rightarrow>
          Inr ((text, generate_map_directive intent location),
               s1\<lparr>conversation_history :=
                    conversation_history s1 @ [\<lparr>timestamp = now, query = q, response = text\<rparr>]\<rparr>)
      | Inl e \<Rightarrow> Inr ((error_response location ctx e, generate_map_directive intent location), s1))"
  using assms unfolding generate_response_def assemble_def Let_def
  by simp

lemma str_in_iff: "str_in w s \<longleftrightarrow> (\<exists>ps ss. s = ps @ w @ ss)"
proof (induction s)
  case Nil
  then show ?case by auto
next
  case (Cons c cs)
  show ?case
  proof
    assume "str_in w (c # cs)"
    then consider "prefix w (c # cs)" | "str_in w cs" by auto
    then show "\<exists>ps ss. c # cs = ps @ w @ ss"
    proof cases
      case 1
      then obtain ss where "c # cs = w @ ss" by (auto simp: prefix_def)
      then have "c # cs = [] @ w @ ss" by simp
      then show ?thesis by blast
    next
      case 2
      then obtain ps ss where "cs = ps @ w @ ss" using Cons.IH by blast
      then have "c # cs = (c # ps) @ w @ ss" by simp
      then show ?thesis by blast
    qed
  next
    assume "\<exists>ps ss. c # cs = ps @ w @ ss"
    then obtain ps ss where e: "c # cs = ps @ w @ ss" by blast
    show "str_in w (c # cs)"
    proof (cases ps)
      case Nil
      then have "prefix w (c # cs)" using e by (simp add: prefix_def)
      then show ?thesis by simp
    next
      case (Cons p ps')
      then have "cs = ps' @ w @ ss" using e by simp
      then have "str_in w cs" using Cons.IH by blast
      then show ?thesis by simp
    qed
  qed
qed

lemma match_intent_first:
  "i < length tbl \<Longrightarrow>
   \<exists>w\<in>set (snd (tbl ! i)). str_in w ql \<Longrightarrow>
   \<forall>kw\<in>set (take i tbl). \<forall>w\<in>set (snd kw). \<not> str_in w ql \<Longrightarrow>
   match_intent tbl ql = fst (tbl ! i)"
proof (induction tbl arbitrary: i)
  case Nil
  then show ?case by simp
next
  case (Cons kw rest)
  obtain intent_type kws where kw: "kw = (intent_type, kws)" by (cases kw)
  show ?case
  proof (cases i)
    case 0
    then show ?thesis using Cons.prems kw by (auto simp add: list_ex_iff)
  next
    case (Suc j)
    have miss: "\<not> list_ex (\<lambda>word. str_in word ql) kws"
      using Cons.prems(3) Suc kw by (auto simp add: list_ex_iff)
    have "match_intent rest ql = fst (rest ! j)"
      using Cons.prems Suc by (intro Cons.IH) auto
    then show ?thesis using miss Suc kw by simp
  qed
qed

lemma match_intent_default:
  "\<forall>kw\<in>set tbl. \<forall>w\<in>set (snd kw). \<not> str_in w ql \<Longrightarrow>
   match_intent tbl ql = ''general_info''"
  by (induction tbl ql rule: match_intent.induct) (auto simp add: list_ex_iff)

lemma extract_intent: "fst (extract_intent_and_entities q) = match_intent INTENT_KEYWORDS (lower q)"
  by (simp add: extract_intent_and_entities_def Let_def)

lemma basic_stats_query_ok:
  "\<not> db_raises db \<Longrightarrow> poi_density db = Inr rows \<Longrightarrow>
     basic_stats_query db location = Inr (stats_of_table rows location)"
  by (cases "get_db_connection db"; cases "conn_close db")
     (simp_all add: basic_stats_query_def db_raises_def)

lemma basic_stats_query_fails:
  "db_raises db \<Longrightarrow> \<exists>e. basic_stats_query db location = Inl e"
  using basic_stats_query_raises [of db location] by (cases "basic_stats_query db location") auto

lemma get_basic_stats_miss:
  "db_cache s (cache_key location) = None \<Longrightarrow>
   get_basic_stats db s location =
     (case basic_stats_query db location of
        Inr stats \<Rightarrow>
          Inr (stats, s\<lparr>db_cache := (db_cache s)(cache_key location \<mapsto> stats)\<rparr>)
      | Inl e \<Rightarrow> Inr (zero_stats, s))"
  by (simp add: get_basic_stats_def)

lemma get_district_analysis_fails:
  "db_raises db \<Longrightarrow> get_district_analysis db location = Inr []"
  by (cases "get_db_connection db"; cases "poi_density db"; cases "conn_close db")
     (simp_all add: get_district_analysis_def db_raises_def)

lemma get_business_opportunities_fails:
  "db_raises db \<Longrightarrow> get_business_opportunities db location = Inr []"
  by (cases "get_db_connection db"; cases "poi_density db"; cases "conn_close db")
     (simp_all add: get_business_opportunities_def db_raises_def)

lemma broken_db_raises: "db_raises broken_db"
  by (simp add: db_raises_def broken_db_def get_db_connection_def)

lemma sample_db_works: "\<not> db_raises sample_db \<and> poi_density sample_db = Inr [sample_atm, sample_bank]"
  by (simp add: db_raises_def sample_db_def get_db_connection_def conn_close_def)

lemma get_basic_stats_error:
  assumes "db_raises db" and "db_cache s (cache_key location) = None"
  shows "get_basic_stats db s location = Inr (zero_stats, s)"
proof -
  obtain e where "basic_stats_query db location = Inl e"
    using basic_stats_query_fails [OF assms(1)] by blast
  then show ?thesis
    by (simp add: get_basic_stats_miss [OF assms(2)])
qed

lemma get_basic_stats_fresh:
  assumes "\<not> db_raises db" and "poi_density db = Inr rows"
    and "db_cache s (cache_key location) = None"
  shows "get_basic_stats db s location =
           Inr (stats_of_table rows location,
                s\<lparr>db_cache := (db_cache s)(cache_key location
                                             \<mapsto> stats_of_table rows location)\<rparr>)"
  by (simp add: get_basic_stats_miss [OF assms(3)] basic_stats_query_ok [OF assms(1,2)])

lemma get_basic_stats_cache_change:
  assumes r: "get_basic_stats db s location = Inr (ctx, s')"
    and d: "db_cache s' \<noteq> db_cache s"
  shows "basic_stats_query db location = Inr ctx \<and> \<not> db_raises db"
proof (cases "db_cache s (cache_key location)")
  case (Some cached)
  then have "s' = s" using r by (simp add: get_basic_stats_def)
  then show ?thesis using d by simp
next
  case None
  show ?thesis
  proof (cases "basic_stats_query db location")
    case (Inl e)
    then have "s' = s" using r by (simp add: get_basic_stats_miss [OF None])
    then show ?thesis using d by simp
  next
    case (Inr stats)
    then have "ctx = stats" using r by (simp add: get_basic_stats_miss [OF None])
    moreover have "\<not> db_raises db"
      using basic_stats_query_raises [of db location] Inr by simp
    ultimately show ?thesis using Inr by simp
  qed
qed

lemma str_in_here: "str_in w (w @ r)"
proof -
  have "w @ r = [] @ w @ r" by simp
  then show ?thesis unfolding str_in_iff by blast
qed

lemma str_in_skip: "str_in w s \<Longrightarrow> str_in w (p @ s)"
proof -
  assume "str_in w s"
  then obtain ps ss where "s = ps @ w @ ss" unfolding str_in_iff by blast
  then have "p @ s = (p @ ps) @ w @ ss" by simp
  then show ?thesis unfolding str_in_iff by blast
qed

lemma error_response_embeds:
  "str_in (str_int (total_banks ctx)) (error_response location ctx e)"
  "str_in (str_int (total_atms ctx)) (error_response location ctx e)"
  "str_in (str_int (total_poi ctx)) (error_response location ctx e)"
  "str_in e (error_response location ctx e)"
  "str_in location (error_response location ctx e)"
  unfolding error_response_def
  by (intro str_in_here str_in_skip)+

text \<open>
  The bank half of the type filter: on a working database, \<open>type=bank\<close> returns
  exactly the Bank rows of the province, all in the list of banks.
\<close>

lemma set_insort_by: "set (insort_by le x ys) = insert x (set ys)"
  by (induction ys) auto

lemma set_sort_by: "set (sort_by le xs) = set xs"
  unfolding sort_by_def by (induction xs) (simp_all add: set_insort_by)

lemma bank_type_accepted:
  "upper ''bank'' = ''BANK'' \<and> title ''bank'' = ''Bank''
   \<and> upper ''BaNk'' = ''BANK'' \<and> title ''BaNk'' = ''Bank''
   \<and> upper ''aTm'' = ''ATM'' \<and> title ''aTm'' = ''Atm''"
  by code_simp

lemma financial_where_bank:
  "financial_where \<lparr>arg_type = Some ''bank'', arg_province = Some ''Bali'', arg_district = None\<rparr> row
     = (category row = ''Bank'' \<and> province row = ''Bali'')"
  using bank_type_accepted
  by (auto simp add: financial_where_def financial_conditions_def truthy_def is_financial_def)

lemma financial_type_bank_only:
  assumes "api_get_db_connection db = Inr ()" and "poi_density db = Inr rows"
    and "conn_close db = Inr ()"
  shows "\<exists>banks. get_financial_data db
            \<lparr>arg_type = Some ''bank'', arg_province = Some ''Bali'', arg_district = None\<rparr>
           = Financial_OK (int (length banks)) (map institution_of banks) []
         \<and> set banks = {row \<in> set rows. category row = ''Bank'' \<and> province row = ''Bali''}"
proof -
  let ?args = "\<lparr>arg_type = Some ''bank'', arg_province = Some ''Bali'', arg_district = None\<rparr>"
  let ?res = "sort_by by_category_name (filter (financial_where ?args) rows)"
  have s: "set ?res = {row \<in> set rows. category row = ''Bank'' \<and> province row = ''Bali''}"
    by (simp add: set_sort_by financial_where_bank)
  then have b: "filter (\<lambda>row. category row = ''Bank'') ?res = ?res"
    and a: "filter (\<lambda>row. category row \<noteq> ''Bank'') ?res = []"
    by (auto simp add: filter_empty_conv filter_id_conv)
  have "get_financial_data db ?args = Financial_OK (int (length ?res)) (map institution_of ?res) []"
    using a b by (simp add: get_financial_data_def Let_def assms)
  then show ?thesis using s by blast
qed

lemma district_analysis_query_row:
  assumes "row \<in> set (district_analysis_query avg_fn rows location)"
  shows "dr_area_classification row =
           area_classification (p_avg_poi_density avg_fn rows location (dr_district row))
             (dr_total_financial row)
         \<and> dr_avg_poi_density row =
             (case p_avg_poi_density avg_fn rows location (dr_district row) of
                None \<Rightarrow> 0 | Some x \<Rightarrow> x)
         \<and> dr_total_financial row =
             count_where (\<lambda>r. district r = dr_district row)
               (filter (\<lambda>r. is_financial r \<and> province r = location) rows)"
  using assms
  unfolding district_analysis_query_def Let_def
  by (auto simp add: set_sort_by count_where_def)

lemma get_district_analysis_rows:
  assumes "get_district_analysis db location = Inr rs" and "row \<in> set rs"
  shows "\<exists>rows. poi_density db = Inr rows
           \<and> row \<in> set (district_analysis_query (sql_avg db) rows location)"
proof (cases "poi_density db")
  case (Inl e)
  then have "get_district_analysis db location = Inr []"
    by (simp add: get_district_analysis_fails db_raises_def)
  then show ?thesis using assms by simp
next
  case (Inr rows)
  have "rs = [] \<or> rs = district_analysis_query (sql_avg db) rows location"
    using assms(1) Inr
    by (cases "get_db_connection db"; cases "conn_close db")
       (auto simp add: get_district_analysis_def Let_def)
  then show ?thesis using assms(2) Inr by auto
qed

lemma sample_districts_analysis:
  "district_analysis_query exact_avg sample_districts ''Bali'' =
     [\<lparr>dr_district = ''Bangli'', dr_banks = 1, dr_atms = 0, dr_total_financial = 1,
       dr_avg_poi_density = 0, dr_area_classification = ''HIGH_RISK_LOW_DEMAND''\<rparr>,
      \<lparr>dr_district = ''Klungkung'', dr_banks = 1, dr_atms = 0, dr_total_financial = 1,
       dr_avg_poi_density = 0, dr_area_classification = ''BALANCED''\<rparr>]
   \<and> p_avg_poi_density exact_avg sample_districts ''Bali'' ''Bangli'' = Some 0
   \<and> p_avg_poi_density exact_avg sample_districts ''Bali'' ''Klungkung'' = None
   \<and> get_district_analysis districts_db ''Bali''
       = Inr (district_analysis_query exact_avg sample_districts ''Bali'')"
  by code_simp

section \<open>District classification\<close>

text \<open>
  C1 (as the code has it). The classification of a district is a function of two values
  alone: the average POI intensity the join gives the district, which is NULL for a
  district without POI rows, and its number of financial points. A NULL average is
  BALANCED. Otherwise the first rule that applies decides, in the order
  HIGH_PRIORITY_WHITESPACE (above 0.7, fewer than 2), MEDIUM_PRIORITY_WHITESPACE
  (above 0.5, fewer than 3), POTENTIAL_RISK_OVERSUPPLY (below 0.3, more than 2),
  HIGH_RISK_LOW_DEMAND (below 0.2, more than 0), else BALANCED. (0.8, 1) is
  HIGH_PRIORITY_WHITESPACE, (0.4, 1) is BALANCED, and (0.2, 5) is
  POTENTIAL_RISK_OVERSUPPLY: 0.2 is below 0.3 and 5 is more than 2, so the third rule takes
  it before the fourth is read. Every threshold is strict: at exactly 0.7 the first rule
  does not apply, at exactly 0.5 and 0.3 the district is BALANCED, and at exactly 0.2 it
  is never HIGH_RISK_LOW_DEMAND.

  Every row that the district query returns, and so every row that
  \<open>get_district_analysis\<close> returns, carries the class of its district's average and of
  its own count of financial points; its column \<open>avg_poi_density\<close> shows the average,
  and 0 in place of NULL.
\<close>

theorem area_classification_rules:
  "area_classification avg n =
     (case avg of
        None \<Rightarrow> ''BALANCED''
      | Some a \<Rightarrow>
         if a > 0.7 \<and> n < 2 then ''HIGH_PRIORITY_WHITESPACE''
         else if a > 0.5 \<and> n < 3 then ''MEDIUM_PRIORITY_WHITESPACE''
         else if a < 0.3 \<and> n > 2 then ''POTENTIAL_RISK_OVERSUPPLY''
         else if a < 0.2 \<and> n > 0 then ''HIGH_RISK_LOW_DEMAND''
         else ''BALANCED'')
   \<and> area_classification (Some 0.8) 1 = ''HIGH_PRIORITY_WHITESPACE''
   \<and> area_classification (Some 0.2) 5 = ''POTENTIAL_RISK_OVERSUPPLY''
   \<and> area_classification (Some 0.4) 1 = ''BALANCED''
   \<and> area_classification (Some 0.7) n \<noteq> ''HIGH_PRIORITY_WHITESPACE''
   \<and> area_classification (Some 0.5) n = ''BALANCED''
   \<and> area_classification (Some 0.3) n = ''BALANCED''
   \<and> area_classification (Some 0.2) n \<noteq> ''HIGH_RISK_LOW_DEMAND''
   \<and> (\<forall>row\<in>set (district_analysis_query avg_fn rows location).
         dr_area_classification row =
           area_classification (p_avg_poi_density avg_fn rows location (dr_district row))
             (dr_total_financial row)
         \<and> dr_avg_poi_density row =
             (case p_avg_poi_density avg_fn rows location (dr_district row) of
                None \<Rightarrow> 0 | Some x \<Rightarrow> x)
         \<and> dr_total_financial row =
             count_where (\<lambda>r. district r = dr_district row)
               (filter (\<lambda>r. is_financial r \<and> province r = location) rows))
   \<and> (\<forall>rs. get_district_analysis db location = Inr rs \<longrightarrow>
         (\<forall>row\<in>set rs. \<exists>tbl. poi_density db = Inr tbl
            \<and> dr_area_classification row =
                area_classification (p_avg_poi_density (sql_avg db) tbl location (dr_district row))
                  (dr_total_financial row)))"
proof -
  have r: "area_classification avg n =
     (case avg of
        None \<Rightarrow> ''BALANCED''
      | Some a \<Rightarrow>
         if a > 0.7 \<and> n < 2 then ''HIGH_PRIORITY_WHITESPACE''
         else if a > 0.5 \<and> n < 3 then ''MEDIUM_PRIORITY_WHITESPACE''
         else if a < 0.3 \<and> n > 2 then ''POTENTIAL_RISK_OVERSUPPLY''
         else if a < 0.2 \<and> n > 0 then ''HIGH_RISK_LOW_DEMAND''
         else ''BALANCED'')"
    by (cases avg) (simp_all add: area_classification_def sql_gt_def sql_lt_def)
  have e: "area_classification (Some 0.8) 1 = ''HIGH_PRIORITY_WHITESPACE''
   \<and> area_classification (Some 0.2) 5 = ''POTENTIAL_RISK_OVERSUPPLY''
   \<and> area_classification (Some 0.4) 1 = ''BALANCED''
   \<and> area_classification (Some 0.7) n \<noteq> ''HIGH_PRIORITY_WHITESPACE''
   \<and> area_classification (Some 0.5) n = ''BALANCED''
   \<and> area_classification (Some 0.3) n = ''BALANCED''
   \<and> area_classification (Some 0.2) n \<noteq> ''HIGH_RISK_LOW_DEMAND''"
    by (simp add: area_classification_def sql_gt_def sql_lt_def)
  have q: "\<forall>row\<in>set (district_analysis_query avg_fn rows location).
         dr_area_classification row =
           area_classification (p_avg_poi_density avg_fn rows location (dr_district row))
             (dr_total_financial row)
         \<and> dr_avg_poi_density row =
             (case p_avg_poi_density avg_fn rows location (dr_district row) of
                None \<Rightarrow> 0 | Some x \<Rightarrow> x)
         \<and> dr_total_financial row =
             count_where (\<lambda>r. district r = dr_district row)
               (filter (\<lambda>r. is_financial r \<and> province r = location) rows)"
    using district_analysis_query_row by blast
  have g: "\<forall>rs. get_district_analysis db location = Inr rs \<longrightarrow>
         (\<forall>row\<in>set rs. \<exists>tbl. poi_density db = Inr tbl
            \<and> dr_area_classification row =
                area_classification (p_avg_poi_density (sql_avg db) tbl location (dr_district row))
                  (dr_total_financial row))"
    using get_district_analysis_rows district_analysis_query_row by meson
  show ?thesis
    using r e q g by (intro conjI) simp_all
qed

theorem area_classification_rules_witness:
  "area_classification (Some 0.1) 2 = ''HIGH_RISK_LOW_DEMAND''
   \<and> area_classification (Some 0.6) 2 = ''MEDIUM_PRIORITY_WHITESPACE''
   \<and> \<lparr>dr_district = ''Klungkung'', dr_banks = 1, dr_atms = 0, dr_total_financial = 1,
       dr_avg_poi_density = 0, dr_area_classification = ''BALANCED''\<rparr>
       \<in> set (district_analysis_query exact_avg sample_districts ''Bali'')
   \<and> p_avg_poi_density exact_avg sample_districts ''Bali'' ''Klungkung'' = None
   \<and> ''BALANCED''
       = area_classification (p_avg_poi_density exact_avg sample_districts ''Bali'' ''Klungkung'') 1
   \<and> p_avg_poi_density exact_avg sample_districts ''Bali'' ''Bangli'' = Some 0
   \<and> ''HIGH_RISK_LOW_DEMAND''
       = area_classification (p_avg_poi_density exact_avg sample_districts ''Bali'' ''Bangli'') 1"
proof -
  let ?k = "\<lparr>dr_district = ''Klungkung'', dr_banks = 1, dr_atms = 0, dr_total_financial = 1,
       dr_avg_poi_density = 0, dr_area_classification = ''BALANCED''\<rparr>"
  let ?b = "\<lparr>dr_district = ''Bangli'', dr_banks = 1, dr_atms = 0, dr_total_financial = 1,
       dr_avg_poi_density = 0, dr_area_classification = ''HIGH_RISK_LOW_DEMAND''\<rparr>"
  have a: "area_classification (Some 0.1) 2 = ''HIGH_RISK_LOW_DEMAND''
     \<and> area_classification (Some 0.6) 2 = ''MEDIUM_PRIORITY_WHITESPACE''"
    using area_classification_rules [of "Some 0.1" 2] area_classification_rules [of "Some 0.6" 2]
    by simp
  have mk: "?k \<in> set (district_analysis_query exact_avg sample_districts ''Bali'')"
    and mb: "?b \<in> set (district_analysis_query exact_avg sample_districts ''Bali'')"
    using sample_districts_analysis by simp_all
  have p: "p_avg_poi_density exact_avg sample_districts ''Bali'' ''Klungkung'' = None"
    "p_avg_poi_density exact_avg sample_districts ''Bali'' ''Bangli'' = Some 0"
    using sample_districts_analysis by simp_all
  have t: "\<forall>row\<in>set (district_analysis_query exact_avg sample_districts ''Bali'').
         dr_area_classification row =
           area_classification (p_avg_poi_density exact_avg sample_districts ''Bali''
                                  (dr_district row))
             (dr_total_financial row)"
    using area_classification_rules [of None 1 exact_avg sample_districts "''Bali''" districts_db]
    by blast
  have k: "''BALANCED''
       = area_classification (p_avg_poi_density exact_avg sample_districts ''Bali'' ''Klungkung'') 1"
    using bspec [OF t mk] by simp
  have b: "''HIGH_RISK_LOW_DEMAND''
       = area_classification (p_avg_poi_density exact_avg sample_districts ''Bali'' ''Bangli'') 1"
    using bspec [OF t mb] by simp
  show ?thesis
    using a mk p k b by blast
qed

text \<open>
  C1 as the specification states it fails at the example (0.2, 5), which it places in
  HIGH_RISK_LOW_DEMAND, and at a district without POI rows: of two districts returned
  with average 0 and one financial point, the one whose average is a computed 0 is
  HIGH_RISK_LOW_DEMAND and the one whose average is NULL is BALANCED.
\<close>

theorem area_classification_example_counterexample:
  "area_classification (Some 0.2) 5 \<noteq> ''HIGH_RISK_LOW_DEMAND''
   \<and> district_analysis_query exact_avg sample_districts ''Bali'' =
       [\<lparr>dr_district = ''Bangli'', dr_banks = 1, dr_atms = 0, dr_total_financial = 1,
         dr_avg_poi_density = 0, dr_area_classification = ''HIGH_RISK_LOW_DEMAND''\<rparr>,
        \<lparr>dr_district = ''Klungkung'', dr_banks = 1, dr_atms = 0, dr_total_financial = 1,
         dr_avg_poi_density = 0, dr_area_classification = ''BALANCED''\<rparr>]"
proof -
  have "area_classification (Some 0.2) 5 \<noteq> ''HIGH_RISK_LOW_DEMAND''"
    by (simp add: area_classification_def sql_gt_def sql_lt_def)
  then show ?thesis using sample_districts_analysis by simp
qed

section \<open>The type parameter of the financial endpoint\<close>

text \<open>
  C9 at the request \<open>/api/financial?province=Bali&type=atm\<close> on a table with one ATM
  and one bank in Bali: the handler accepts the type (its upper-case form is ATM), then
  compares the category with \<open>title\<close> of it, \<open>Atm\<close>, which no row has. Both lists
  come back empty, although the same request without \<open>type\<close> returns the ATM.
\<close>

theorem financial_type_atm_selects_nothing:
  "title ''atm'' = ''Atm'' \<and> title ''ATM'' = ''Atm''
   \<and> get_financial_data sample_db
        \<lparr>arg_type = Some ''atm'', arg_province = Some ''Bali'', arg_district = None\<rparr>
       = Financial_OK 0 [] []
   \<and> get_financial_data sample_db
        \<lparr>arg_type = None, arg_province = Some ''Bali'', arg_district = None\<rparr>
       = Financial_OK 2 [institution_of sample_bank] [institution_of sample_atm]"
  by code_simp

section \<open>The center of a map directive\<close>

text \<open>
  C2 (as the code has it). For the intents whitespots, risk_assessment, bank_distribution
  and business_analysis the center of the directive is resolved from the two-entry
  location table (Bali, Indonesia), with the Bali center for a location that is not in
  the table. For gdp_national, and for every intent without an entry of its own (which
  gets the gdp_national entry), the center is the Indonesia center whatever the location.
\<close>

theorem directive_center:
  "center (generate_map_directive intent location) =
     (if intent \<in> set [''whitespots'', ''risk_assessment'', ''bank_distribution'',
                        ''business_analysis'']
      then Some (case map_of MAP_CENTERS location of
                   Some c \<Rightarrow> c | None \<Rightarrow> (-8.6705, 115.2126))
      else Some (-2.5, 118))
   \<and> map_of MAP_CENTERS location =
       (if location = ''Bali'' then Some (-8.6705, 115.2126)
        else if location = ''Indonesia'' then Some (-2.5, 118) else None)"
  unfolding generate_map_directive_cases map_centers_table
  by (simp add: config_center)

theorem directive_center_witness:
  "center (generate_map_directive ''risk_assessment'' ''Jakarta'') = Some (-8.6705, 115.2126)
   \<and> center (generate_map_directive ''bank_distribution'' ''Indonesia'') = Some (-2.5, 118)
   \<and> center (generate_map_directive ''greeting'' ''Bali'') = Some (-2.5, 118)"
  using directive_center [of "''risk_assessment''" "''Jakarta''"]
    directive_center [of "''bank_distribution''" "''Indonesia''"]
    directive_center [of "''greeting''" "''Bali''"]
  by simp

text \<open>
  C2 as the specification states it, the center depending on the location alone, fails
  for the intent gdp_national at the location Bali.
\<close>

theorem directive_center_intent_counterexample:
  "center (generate_map_directive ''gdp_national'' ''Bali'') \<noteq> Some (-8.6705, 115.2126)
   \<and> center (generate_map_directive ''gdp_national'' ''Bali'')
       \<noteq> center (generate_map_directive ''whitespots'' ''Bali'')"
  unfolding generate_map_directive_cases
  by (simp add: config_center)

section \<open>The directive of a business analysis in Bali\<close>

text \<open>
  C8. The directive for the intent business_analysis at the location Bali has zoom 11 and
  the Bali center of the location table, (-8.6705, 115.2126); every query with that intent
  and location gets this directive from \<open>generate_response\<close>, whatever entities were
  extracted, whatever the database and the language model do.
\<close>

theorem business_analysis_bali_directive:
  "zoom (generate_map_directive ''business_analysis'' ''Bali'') = Some 11
   \<and> center (generate_map_directive ''business_analysis'' ''Bali'') = Some (-8.6705, 115.2126)
   \<and> center (generate_map_directive ''business_analysis'' ''Bali'')
       = Some (dict_item MAP_CENTERS ''Bali'')
   \<and> (extract_intent_and_entities q = (''business_analysis'', entities, ''Bali'') \<longrightarrow>
        (\<exists>text s'. generate_response db llm now s q =
           Inr ((text, generate_map_directive ''business_analysis'' ''Bali''), s')))"
proof -
  have d: "generate_map_directive ''business_analysis'' ''Bali''
             = dict_item (directive_config ''Bali'') ''business_analysis''"
    unfolding generate_map_directive_cases by simp
  have z: "zoom (generate_map_directive ''business_analysis'' ''Bali'') = Some 11"
    unfolding d by (rule config_zoom)
  have c: "center (generate_map_directive ''business_analysis'' ''Bali'')
             = Some (-8.6705, 115.2126)"
    unfolding d by (simp add: config_center)
  have r: "\<exists>text s'. generate_response db llm now s q =
             Inr ((text, generate_map_directive ''business_analysis'' ''Bali''), s')"
    if e: "extract_intent_and_entities q = (''business_analysis'', entities, ''Bali'')"
  proof -
    obtain ctx s1 where a: "assemble db s ''business_analysis'' ''Bali'' = Inr (ctx, s1)"
      using assemble_returns by blast
    show ?thesis
      unfolding generate_response_unfold [OF e a]
      by (cases "llm_text llm") simp_all
  qed
  show ?thesis using z c r by (simp add: map_centers_item)
qed

theorem business_analysis_bali_directive_witness:
  "extract_intent_and_entities ''Lokasi strategis untuk coffee shop BCA di Bali?''
     = (''business_analysis'', [''Bali'', ''BCA''], ''Bali'')
   \<and> (\<exists>text s'. generate_response broken_db (Inl ''timeout'') ''2025-01-01T00:00:00''
                    init_service ''Lokasi strategis untuk coffee shop BCA di Bali?''
        = Inr ((text, generate_map_directive ''business_analysis'' ''Bali''), s'))
   \<and> zoom (generate_map_directive ''business_analysis'' ''Bali'') = Some 11"
proof -
  have e: "extract_intent_and_entities ''Lokasi strategis untuk coffee shop BCA di Bali?''
             = (''business_analysis'', [''Bali'', ''BCA''], ''Bali'')"
    by code_simp
  show ?thesis
    using e business_analysis_bali_directive
      [of "''Lokasi strategis untuk coffee shop BCA di Bali?''" "[''Bali'', ''BCA'']"
          broken_db "Inl ''timeout''" "''2025-01-01T00:00:00''" init_service]
    by blast
qed

section \<open>The intent of a query\<close>

text \<open>
  C3. The intents are listed in the order greeting, whitespots, risk_assessment,
  gdp_national, business_analysis, bank_distribution. A query whose lower-cased text
  contains a keyword of the intent at position \<open>i\<close> and no keyword of an intent listed
  before it gets that intent; a query that contains no keyword of any list gets
  general_info.
\<close>

theorem extract_intent_first_match:
  "map fst INTENT_KEYWORDS =
     [''greeting'', ''whitespots'', ''risk_assessment'', ''gdp_national'',
      ''business_analysis'', ''bank_distribution'']
   \<and> (i < length INTENT_KEYWORDS
        \<and> (\<exists>w\<in>set (snd (INTENT_KEYWORDS ! i)). str_in w (lower q))
        \<and> (\<forall>kw\<in>set (take i INTENT_KEYWORDS). \<forall>w\<in>set (snd kw). \<not> str_in w (lower q))
       \<longrightarrow> fst (extract_intent_and_entities q) = fst (INTENT_KEYWORDS ! i))
   \<and> ((\<forall>kw\<in>set INTENT_KEYWORDS. \<forall>w\<in>set (snd kw). \<not> str_in w (lower q))
       \<longrightarrow> fst (extract_intent_and_entities q) = ''general_info'')"
proof -
  have "map fst INTENT_KEYWORDS =
     [''greeting'', ''whitespots'', ''risk_assessment'', ''gdp_national'',
      ''business_analysis'', ''bank_distribution'']"
    by (simp add: INTENT_KEYWORDS_def)
  then show ?thesis
    unfolding extract_intent
    using match_intent_first [of i INTENT_KEYWORDS "lower q"]
      match_intent_default [of INTENT_KEYWORDS "lower q"]
    by blast
qed

theorem extract_intent_first_match_witness:
  "fst (extract_intent_and_entities ''Cabang BERISIKO dan lokasi bank di Bali?'')
     = ''risk_assessment''
   \<and> str_in ''lokasi bank'' (lower ''Cabang BERISIKO dan lokasi bank di Bali?'')
   \<and> fst (extract_intent_and_entities ''Terima kasih'') = ''general_info''"
proof -
  let ?q = "''Cabang BERISIKO dan lokasi bank di Bali?''"
  have h: "(2::nat) < length INTENT_KEYWORDS
        \<and> (\<exists>w\<in>set (snd (INTENT_KEYWORDS ! 2)). str_in w (lower ?q))
        \<and> (\<forall>kw\<in>set (take 2 INTENT_KEYWORDS). \<forall>w\<in>set (snd kw). \<not> str_in w (lower ?q))"
    by code_simp
  have n: "fst (INTENT_KEYWORDS ! 2) = ''risk_assessment''"
    by code_simp
  have l: "str_in ''lokasi bank'' (lower ?q)"
    by code_simp
  have d: "\<forall>kw\<in>set INTENT_KEYWORDS. \<forall>w\<in>set (snd kw). \<not> str_in w (lower ''Terima kasih'')"
    by code_simp
  show ?thesis
    using h n l d extract_intent_first_match [of 2 ?q]
      extract_intent_first_match [of 0 "''Terima kasih''"]
    by simp
qed

section \<open>The location of a query\<close>

text \<open>
  C6. The location is Bali when the lower-cased query contains \<open>bali\<close>; otherwise it is
  Indonesia exactly when the intent found is gdp_national, and Bali in every other case.
\<close>

theorem extract_location:
  "snd (snd (extract_intent_and_entities q)) =
     (if str_in ''bali'' (lower q) then ''Bali''
      else if fst (extract_intent_and_entities q) = ''gdp_national'' then ''Indonesia''
      else ''Bali'')"
  by (simp add: extract_intent_and_entities_def Let_def)

theorem extract_location_witness:
  "extract_intent_and_entities ''Bagaimana kondisi ekonomi NASIONAL?''
     = (''gdp_national'', [], ''Indonesia'')
   \<and> snd (snd (extract_intent_and_entities ''GDP Bali'')) = ''Bali''
   \<and> snd (snd (extract_intent_and_entities ''Sebaran bank BRI'')) = ''Bali''"
proof -
  have a: "extract_intent_and_entities ''Bagaimana kondisi ekonomi NASIONAL?''
     = (''gdp_national'', [], ''Indonesia'')"
    by code_simp
  have b: "str_in ''bali'' (lower ''GDP Bali'')" by code_simp
  have c: "\<not> str_in ''bali'' (lower ''Sebaran bank BRI'')
           \<and> fst (extract_intent_and_entities ''Sebaran bank BRI'') \<noteq> ''gdp_national''"
    by code_simp
  show ?thesis
    using a b c extract_location [of "''GDP Bali''"] extract_location [of "''Sebaran bank BRI''"]
    by simp
qed

section \<open>Database errors in the context assembler\<close>

text \<open>
  C5. When a step of the database query raises, \<open>get_basic_stats\<close> (which reaches the
  database only on a cache miss) returns the zero-valued counts, and
  \<open>get_district_analysis\<close> and \<open>get_business_opportunities\<close> return the empty list.
  None of these operations, nor \<open>get_database_context\<close>, lets an exception out, for
  any database, service state, intent and location.
\<close>

theorem database_errors_degrade:
  "(db_raises db \<and> db_cache s (cache_key location) = None \<longrightarrow>
      get_basic_stats db s location = Inr (zero_stats, s))
   \<and> total_banks zero_stats = 0 \<and> total_atms zero_stats = 0 \<and> total_poi zero_stats = 0
   \<and> (db_raises db \<longrightarrow>
        get_district_analysis db location = Inr []
        \<and> get_business_opportunities db location = Inr [])
   \<and> (\<exists>ctx s'. get_basic_stats db s location = Inr (ctx, s'))
   \<and> (\<exists>rows. get_district_analysis db location = Inr rows)
   \<and> (\<exists>rows. get_business_opportunities db location = Inr rows)
   \<and> (\<exists>ctx s'. get_database_context db s intent location = Inr (ctx, s'))"
proof (intro conjI impI)
  show "get_basic_stats db s location = Inr (zero_stats, s)"
    if "db_raises db \<and> db_cache s (cache_key location) = None"
    using that get_basic_stats_error [of db s location] by simp
  show "get_district_analysis db location = Inr []" if "db_raises db"
    using that by (rule get_district_analysis_fails)
  show "get_business_opportunities db location = Inr []" if "db_raises db"
    using that by (rule get_business_opportunities_fails)
  show "\<exists>ctx s'. get_basic_stats db s location = Inr (ctx, s')"
    by (rule get_basic_stats_returns)
  show "\<exists>rows. get_district_analysis db location = Inr rows"
    by (rule get_district_analysis_returns)
  show "\<exists>rows. get_business_opportunities db location = Inr rows"
    by (rule get_business_opportunities_returns)
  show "\<exists>ctx s'. get_database_context db s intent location = Inr (ctx, s')"
    by (rule get_database_context_returns)
qed (simp_all add: zero_stats_def)

theorem database_errors_degrade_witness:
  "db_raises broken_db
   \<and> get_basic_stats broken_db init_service ''Bali'' = Inr (zero_stats, init_service)
   \<and> get_district_analysis broken_db ''Bali'' = Inr []
   \<and> get_business_opportunities broken_db ''Bali'' = Inr []"
proof -
  have c: "db_cache init_service (cache_key ''Bali'') = None"
    by (simp add: init_service_def)
  show ?thesis
    using broken_db_raises c
      database_errors_degrade [of broken_db init_service "''Bali''" "''whitespots''"]
    by simp
qed

section \<open>Failed counts are not cached\<close>

text \<open>
  C10. A call of \<open>get_basic_stats\<close> that misses the cache and meets a database error
  returns the zero-valued counts and leaves the service, and so the cache, as it was:
  the location still has no entry, and the next call on a working database computes the
  counts from its table and caches them. The cache changes only in a call whose
  database query succeeded, and then it stores the counts that query computed.
\<close>

theorem failed_stats_not_cached:
  "(db_cache s (cache_key location) = None \<and> db_raises db \<longrightarrow>
      get_basic_stats db s location = Inr (zero_stats, s)
      \<and> (\<not> db_raises db2 \<and> poi_density db2 = Inr rows \<longrightarrow>
            get_basic_stats db2 s location =
              Inr (stats_of_table rows location,
                   s\<lparr>db_cache := (db_cache s)(cache_key location
                                                \<mapsto> stats_of_table rows location)\<rparr>)))
   \<and> (get_basic_stats db s location = Inr (ctx, s') \<and> db_cache s' \<noteq> db_cache s \<longrightarrow>
        basic_stats_query db location = Inr ctx \<and> \<not> db_raises db)"
proof (intro conjI impI)
  show "get_basic_stats db s location = Inr (zero_stats, s)"
    if "db_cache s (cache_key location) = None \<and> db_raises db"
    using that get_basic_stats_error [of db s location] by simp
  show "get_basic_stats db2 s location =
          Inr (stats_of_table rows location,
               s\<lparr>db_cache := (db_cache s)(cache_key location
                                            \<mapsto> stats_of_table rows location)\<rparr>)"
    if "db_cache s (cache_key location) = None \<and> db_raises db"
      and "\<not> db_raises db2 \<and> poi_density db2 = Inr rows"
    using that get_basic_stats_fresh [of db2 rows s location] by simp
  show "basic_stats_query db location = Inr ctx"
    if "get_basic_stats db s location = Inr (ctx, s') \<and> db_cache s' \<noteq> db_cache s"
    using that get_basic_stats_cache_change [of db s location ctx s'] by simp
  show "\<not> db_raises db"
    if "get_basic_stats db s location = Inr (ctx, s') \<and> db_cache s' \<noteq> db_cache s"
    using that get_basic_stats_cache_change [of db s location ctx s'] by simp
qed

theorem failed_stats_not_cached_witness:
  "get_basic_stats broken_db init_service ''Bali'' = Inr (zero_stats, init_service)
   \<and> db_cache init_service (cache_key ''Bali'') = None
   \<and> get_basic_stats sample_db init_service ''Bali'' =
       Inr (stats_of_table [sample_atm, sample_bank] ''Bali'',
            init_service\<lparr>db_cache := (db_cache init_service)(cache_key ''Bali''
                           \<mapsto> stats_of_table [sample_atm, sample_bank] ''Bali'')\<rparr>)
   \<and> total_banks (stats_of_table [sample_atm, sample_bank] ''Bali'') = 1"
proof -
  have c: "db_cache init_service (cache_key ''Bali'') = None"
    by (simp add: init_service_def)
  have n: "total_banks (stats_of_table [sample_atm, sample_bank] ''Bali'') = 1"
    by (simp add: stats_of_table_def count_where_def sample_atm_def sample_bank_def)
  have t: "get_basic_stats broken_db init_service ''Bali'' = Inr (zero_stats, init_service)
      \<and> (\<not> db_raises sample_db \<and> poi_density sample_db = Inr [sample_atm, sample_bank] \<longrightarrow>
            get_basic_stats sample_db init_service ''Bali'' =
              Inr (stats_of_table [sample_atm, sample_bank] ''Bali'',
                   init_service\<lparr>db_cache := (db_cache init_service)(cache_key ''Bali''
                        \<mapsto> stats_of_table [sample_atm, sample_bank] ''Bali'')\<rparr>))"
    using broken_db_raises c
      failed_stats_not_cached [of init_service "''Bali''" broken_db sample_db
        "[sample_atm, sample_bank]" zero_stats init_service]
    by blast
  show ?thesis
    using t sample_db_works c n by blast
qed

section \<open>Clearing the conversation\<close>

text \<open>
  C7. After \<open>clear_conversation_history\<close> the history is empty and the cache is empty;
  a following \<open>get_basic_stats\<close> for any location returns what the database query
  gives now (the counts of the table when the database works), whatever the cache held
  before.
\<close>

theorem clear_resets_history_and_cache:
  "get_conversation_history (clear_conversation_history s) = []
   \<and> db_cache (clear_conversation_history s) = Map.empty
   \<and> (\<exists>s'. get_basic_stats db (clear_conversation_history s) location =
         Inr ((case basic_stats_query db location of
                 Inr stats \<Rightarrow> stats | Inl e \<Rightarrow> zero_stats), s'))
   \<and> (\<not> db_raises db \<and> poi_density db = Inr rows \<longrightarrow>
        (\<exists>s'. get_basic_stats db (clear_conversation_history s) location =
           Inr (stats_of_table rows location, s')))"
proof -
  let ?c = "clear_conversation_history s"
  have m: "db_cache ?c (cache_key location) = None"
    by (simp add: clear_conversation_history_def)
  have a: "\<exists>s'. get_basic_stats db ?c location =
         Inr ((case basic_stats_query db location of
                 Inr stats \<Rightarrow> stats | Inl e \<Rightarrow> zero_stats), s')"
    by (cases "basic_stats_query db location") (simp_all add: get_basic_stats_miss [OF m])
  have b: "\<exists>s'. get_basic_stats db ?c location = Inr (stats_of_table rows location, s')"
    if "\<not> db_raises db \<and> poi_density db = Inr rows"
    using that get_basic_stats_fresh [of db rows ?c location] m by simp
  show ?thesis
    using a b
    by (simp add: get_conversation_history_def clear_conversation_history_def)
qed

theorem clear_resets_history_and_cache_witness:
  "get_basic_stats sample_db stale_service ''Bali''
     = Inr (zero_stats\<lparr>total_banks := 99\<rparr>, stale_service)
   \<and> conversation_history stale_service \<noteq> []
   \<and> get_conversation_history (clear_conversation_history stale_service) = []
   \<and> (\<exists>s'. get_basic_stats sample_db (clear_conversation_history stale_service) ''Bali''
         = Inr (stats_of_table [sample_atm, sample_bank] ''Bali'', s'))
   \<and> total_banks (stats_of_table [sample_atm, sample_bank] ''Bali'') = 1"
proof -
  have o: "get_basic_stats sample_db stale_service ''Bali''
     = Inr (zero_stats\<lparr>total_banks := 99\<rparr>, stale_service)"
    by (simp add: get_basic_stats_def stale_service_def)
  have h: "conversation_history stale_service \<noteq> []"
    by (simp add: stale_service_def)
  have n: "total_banks (stats_of_table [sample_atm, sample_bank] ''Bali'') = 1"
    by (simp add: stats_of_table_def count_where_def sample_atm_def sample_bank_def)
  show ?thesis
    using o h n sample_db_works
      clear_resets_history_and_cache [of stale_service sample_db "''Bali''"
        "[sample_atm, sample_bank]"]
    by blast
qed

section \<open>The response generator\<close>

text \<open>
  C4 (as the code has it). For every query, \<open>generate_response\<close> first assembles the
  context, which always succeeds and leaves the history as it was. When the language
  model returns a response with at least one content block, the result is the text of
  the first block, and the history grows by exactly one entry, for this query and text.
  When the call raises, and also when it returns a response without content (reading
  \<open>content[0]\<close> raises inside the same \<open>try\<close>), the history is unchanged and the
  result is the fallback text for the location, the assembled context and the error
  message, which contains the three counts of the context and the message. In every case
  the directive is the one computed from the extracted intent and location, and the
  service apart from the history is the same.
\<close>

theorem generate_response_outcomes:
  "extract_intent_and_entities q = (intent, entities, location) \<longrightarrow>
   (\<exists>ctx s1.
      assemble db s intent location = Inr (ctx, s1)
      \<and> conversation_history s1 = conversation_history s
      \<and> (\<forall>t ts. generate_response db (Inr (t # ts)) now s q =
            Inr ((t, generate_map_directive intent location),
                 s1\<lparr>conversation_history :=
                      conversation_history s
                      @ [\<lparr>timestamp = now, query = q, response = t\<rparr>]\<rparr>))
      \<and> (\<forall>e. generate_response db (Inl e) now s q =
                 Inr ((error_response location ctx e, generate_map_directive intent location), s1)
               \<and> str_in (str_int (total_banks ctx)) (error_response location ctx e)
               \<and> str_in (str_int (total_atms ctx)) (error_response location ctx e)
               \<and> str_in (str_int (total_poi ctx)) (error_response location ctx e)
               \<and> str_in e (error_response location ctx e))
      \<and> generate_response db (Inr []) now s q =
            Inr ((error_response location ctx ''list index out of range'',
                  generate_map_directive intent location), s1))"
proof
  assume x: "extract_intent_and_entities q = (intent, entities, location)"
  obtain ctx s1 where a: "assemble db s intent location = Inr (ctx, s1)"
    using assemble_returns by blast
  have h: "conversation_history s1 = conversation_history s"
    using a by (rule assemble_history)
  have ok: "generate_response db (Inr (t # ts)) now s q =
            Inr ((t, generate_map_directive intent location),
                 s1\<lparr>conversation_history :=
                      conversation_history s
                      @ [\<lparr>timestamp = now, query = q, response = t\<rparr>]\<rparr>)" for t ts
    unfolding generate_response_unfold [OF x a] by (simp add: llm_text_def h)
  have ko: "generate_response db (Inl e) now s q =
              Inr ((error_response location ctx e, generate_map_directive intent location), s1)"
    for e
    unfolding generate_response_unfold [OF x a] by (simp add: llm_text_def)
  have em: "generate_response db (Inr []) now s q =
              Inr ((error_response location ctx ''list index out of range'',
                    generate_map_directive intent location), s1)"
    unfolding generate_response_unfold [OF x a] by (simp add: llm_text_def)
  show "\<exists>ctx s1.
      assemble db s intent location = Inr (ctx, s1)
      \<and> conversation_history s1 = conversation_history s
      \<and> (\<forall>t ts. generate_response db (Inr (t # ts)) now s q =
            Inr ((t, generate_map_directive intent location),
                 s1\<lparr>conversation_history :=
                      conversation_history s
                      @ [\<lparr>timestamp = now, query = q, response = t\<rparr>]\<rparr>))
      \<and> (\<forall>e. generate_response db (Inl e) now s q =
                 Inr ((error_response location ctx e, generate_map_directive intent location), s1)
               \<and> str_in (str_int (total_banks ctx)) (error_response location ctx e)
               \<and> str_in (str_int (total_atms ctx)) (error_response location ctx e)
               \<and> str_in (str_int (total_poi ctx)) (error_response location ctx e)
               \<and> str_in e (error_response location ctx e))
      \<and> generate_response db (Inr []) now s q =
            Inr ((error_response location ctx ''list index out of range'',
                  generate_map_directive intent location), s1)"
    using a h ok ko em error_response_embeds by (intro exI [of _ ctx] exI [of _ s1]) simp
qed

theorem generate_response_outcomes_witness:
  "extract_intent_and_entities ''Cabang berisiko di Bali?''
     = (''risk_assessment'', [''Bali''], ''Bali'')
   \<and> mode (generate_map_directive ''risk_assessment'' ''Bali'') = ''risk''
   \<and> (\<exists>s1. generate_response sample_db (Inr [''Ada dua cabang.'']) ''2025-01-01T00:00:00''
              init_service ''Cabang berisiko di Bali?''
         = Inr ((''Ada dua cabang.'', generate_map_directive ''risk_assessment'' ''Bali''),
                s1\<lparr>conversation_history :=
                     [\<lparr>timestamp = ''2025-01-01T00:00:00'', query = ''Cabang berisiko di Bali?'',
                       response = ''Ada dua cabang.''\<rparr>]\<rparr>))
   \<and> (\<exists>ctx s1. generate_response sample_db (Inl ''timeout'') ''2025-01-01T00:00:00''
              init_service ''Cabang berisiko di Bali?''
         = Inr ((error_response ''Bali'' ctx ''timeout'',
                 generate_map_directive ''risk_assessment'' ''Bali''), s1)
         \<and> conversation_history s1 = [])"
proof -
  have x: "extract_intent_and_entities ''Cabang berisiko di Bali?''
     = (''risk_assessment'', [''Bali''], ''Bali'')"
    by code_simp
  have m: "mode (generate_map_directive ''risk_assessment'' ''Bali'') = ''risk''"
    by code_simp
  have i: "conversation_history init_service = []"
    by (simp add: init_service_def)
  obtain ctx s1 where t:
    "conversation_history s1 = conversation_history init_service"
    "\<forall>t ts. generate_response sample_db (Inr (t # ts)) ''2025-01-01T00:00:00''
              init_service ''Cabang berisiko di Bali?'' =
            Inr ((t, generate_map_directive ''risk_assessment'' ''Bali''),
                 s1\<lparr>conversation_history :=
                      conversation_history init_service
                      @ [\<lparr>timestamp = ''2025-01-01T00:00:00'',
                          query = ''Cabang berisiko di Bali?'', response = t\<rparr>]\<rparr>)"
    "\<forall>e. generate_response sample_db (Inl e) ''2025-01-01T00:00:00''
              init_service ''Cabang berisiko di Bali?'' =
            Inr ((error_response ''Bali'' ctx e,
                  generate_map_directive ''risk_assessment'' ''Bali''), s1)"
    using x generate_response_outcomes
      [of "''Cabang berisiko di Bali?''" "''risk_assessment''" "[''Bali'']" "''Bali''"
          sample_db init_service "''2025-01-01T00:00:00''"]
    by blast
  have a: "\<exists>s1. generate_response sample_db (Inr [''Ada dua cabang.'']) ''2025-01-01T00:00:00''
              init_service ''Cabang berisiko di Bali?''
         = Inr ((''Ada dua cabang.'', generate_map_directive ''risk_assessment'' ''Bali''),
                s1\<lparr>conversation_history :=
                     [\<lparr>timestamp = ''2025-01-01T00:00:00'', query = ''Cabang berisiko di Bali?'',
                       response = ''Ada dua cabang.''\<rparr>]\<rparr>)"
    using t(2) i by (intro exI [of _ s1]) simp
  have b: "\<exists>ctx s1. generate_response sample_db (Inl ''timeout'') ''2025-01-01T00:00:00''
              init_service ''Cabang berisiko di Bali?''
         = Inr ((error_response ''Bali'' ctx ''timeout'',
                 generate_map_directive ''risk_assessment'' ''Bali''), s1)
         \<and> conversation_history s1 = []"
    using t(1,3) i by (intro exI [of _ ctx] exI [of _ s1]) simp
  show ?thesis using x m a b by blast
qed

text \<open>
  C4 as the specification states it fails for a call of the language model that succeeds
  with a response without content: nothing is appended and the fallback text is returned.
\<close>

theorem generate_response_empty_content_counterexample:
  "generate_response sample_db (Inr []) ''2025-01-01T00:00:00'' init_service ''Halo'' =
     Inr ((error_response ''Bali'' (stats_of_table [sample_atm, sample_bank] ''Bali'')
             ''list index out of range'',
           generate_map_directive ''greeting'' ''Bali''),
          init_service\<lparr>db_cache := (db_cache init_service)(cache_key ''Bali''
                         \<mapsto> stats_of_table [sample_atm, sample_bank] ''Bali'')\<rparr>)
   \<and> conversation_history
        (init_service\<lparr>db_cache := (db_cache init_service)(cache_key ''Bali''
                         \<mapsto> stats_of_table [sample_atm, sample_bank] ''Bali'')\<rparr>) = []"
proof -
  have x: "extract_intent_and_entities ''Halo'' = (''greeting'', [], ''Bali'')"
    by code_simp
  have d: "\<not> needs_deep_analysis ''greeting''"
    by (simp add: needs_deep_analysis_def)
  have c: "db_cache init_service (cache_key ''Bali'') = None"
    by (simp add: init_service_def)
  have a: "assemble sample_db init_service ''greeting'' ''Bali'' =
             Inr (stats_of_table [sample_atm, sample_bank] ''Bali'',
                  init_service\<lparr>db_cache := (db_cache init_service)(cache_key ''Bali''
                         \<mapsto> stats_of_table [sample_atm, sample_bank] ''Bali'')\<rparr>)"
    using sample_db_works c d
    by (simp add: assemble_def get_basic_stats_fresh)
  show ?thesis
    unfolding generate_response_unfold [OF x a]
    by (simp add: llm_text_def init_service_def)
qed

end
